theory Spec2Isabelle
  imports Complex_Main "HOL-Library.AList"
begin

section \<open>Python values, dictionaries and exceptions\<close>

text \<open>
  The values that travel through \<^verbatim>\<open>nerve/cli/serve.py\<close> are JSON-like Python objects.
  The code inspects them in two ways only, \<^verbatim>\<open>is None\<close> and indexing a dictionary at
  a key, and never computes with them; floating-point numbers are left out.
\<close>

datatype pyval =
    PNone
  | PBool bool
  | PInt int
  | PStr string
  | PList "pyval list"
  | PDict "(string \<times> pyval) list"

text \<open>
  A Python \<^verbatim>\<open>dict\<close> keeps its keys in insertion order, and the order decides which
  missing input is reported first, so a dictionary is an association list.
\<close>

type_synonym dict = "(string \<times> pyval) list"

definition dict_keys :: "dict \<Rightarrow> string list" where
  "dict_keys d = map fst d"

text \<open>\<^verbatim>\<open>d.get(k, dflt)\<close>\<close>

definition dict_get :: "dict \<Rightarrow> string \<Rightarrow> pyval \<Rightarrow> pyval" where
  "dict_get d k dflt = (case map_of d k of None \<Rightarrow> dflt | Some v \<Rightarrow> v)"

text \<open>\<^verbatim>\<open>d[k] = v\<close>: an existing key keeps its position, a new key goes to the end.\<close>

definition dict_set :: "dict \<Rightarrow> string \<Rightarrow> pyval \<Rightarrow> dict" where
  "dict_set d k v = AList.update k v d"

text \<open>
  Exceptions: \<^verbatim>\<open>HTTPException(status_code, detail)\<close> raised by the input resolver,
  \<^verbatim>\<open>KeyError\<close> raised by indexing a dictionary at a missing key, \<^verbatim>\<open>typer.Abort\<close>
  raised at startup, \<^verbatim>\<open>RequestValidationError\<close> (status 422) with which the framework
  answers a body that does not have the type the handler declares, and \<open>Raised\<close> for
  whatever an external collaborator (the Runner, a tool) raises.
\<close>

datatype error =
    HTTPException (status_code: int) (detail: string)
  | RequestValidationError
  | KeyError string
  | Abort
  | Raised string

text \<open>
  \<^verbatim>\<open>str.lower()\<close>. No character outside \<^verbatim>\<open>A..Z\<close> lowers to one of the letters
  of \<^verbatim>\<open>true\<close>, so the ASCII mapping decides the comparison with \<^verbatim>\<open>"true"\<close>
  exactly as Python does.
\<close>

definition lower_char :: "char \<Rightarrow> char" where
  "lower_char c =
     (let n = (of_char c :: nat) in if 65 \<le> n \<and> n \<le> 90 then char_of (n + 32) else c)"

definition lower :: "string \<Rightarrow> string" where
  "lower s = map lower_char s"

text \<open>Truthiness of an optional string: \<^verbatim>\<open>None\<close> and \<^verbatim>\<open>""\<close> are false.\<close>

definition truthy :: "string option \<Rightarrow> bool" where
  "truthy s = (case s of None \<Rightarrow> False | Some x \<Rightarrow> x \<noteq> [])"


section \<open>Input resolver: \<^verbatim>\<open>_get_input_state_from_request\<close>\<close>

text \<open>
  \<^verbatim>\<open>
  input_state = inputs.copy()
  for input_name in input_state.keys():
      input_value = data.get(input_name, inputs.get(input_name, None))
      if input_value is None:
          raise HTTPException(status_code=400, detail=f"input '{input_name}' is required")
      input_state[input_name] = input_value
  return input_state
  \<close>
  The loop runs over the keys of the copy, in order; assigning to an existing key does not
  change the key order, so the keys iterated are those of \<open>inputs\<close>.
\<close>

text \<open>Line 39, the value an input resolves to, and the f-string of line 41.\<close>

definition input_value :: "dict \<Rightarrow> dict \<Rightarrow> string \<Rightarrow> pyval" where
  "input_value inputs data input_name =
     dict_get data input_name (dict_get inputs input_name PNone)"

definition required_detail :: "string \<Rightarrow> string" where
  "required_detail input_name =
     ''input '' @ [CHR 0x27] @ input_name @ [CHR 0x27] @ '' is required''"

fun input_state_loop :: "dict \<Rightarrow> dict \<Rightarrow> string list \<Rightarrow> dict \<Rightarrow> error + dict" where
  "input_state_loop inputs data [] input_state = Inr input_state"
| "input_state_loop inputs data (input_name # rest) input_state =
     (if input_value inputs data input_name = PNone then
        Inl (HTTPException 400 (required_detail input_name))
      else input_state_loop inputs data rest
             (dict_set input_state input_name (input_value inputs data input_name)))"

definition get_input_state_from_request :: "dict \<Rightarrow> dict \<Rightarrow> error + dict" where
  "get_input_state_from_request inputs data =
     input_state_loop inputs data (dict_keys inputs) inputs"


section \<open>Request handlers\<close>

text \<open>
  Of the request the handlers read the query parameters (\<^verbatim>\<open>request.query_params.get\<close>)
  and, for logging only, the client host.
\<close>

record request =
  query_params :: "string \<rightharpoonup> string"
  client :: "string option"

text \<open>
  The parameters a handler passes to \<^verbatim>\<open>Runner(...)\<close> besides the input state. The
  Runner is an external collaborator: \<open>runner\<close> is its \<^verbatim>\<open>run()\<close>, returning the
  output state or raising.
\<close>

record runner_params =
  rp_input_path :: string
  rp_generator :: string
  rp_conversation_strategy :: string
  rp_max_steps :: int
  rp_max_cost :: real
  rp_timeout :: "int option"
  rp_quiet :: bool

type_synonym runner = "runner_params \<Rightarrow> dict \<Rightarrow> error + dict"

text \<open>
  \<^verbatim>\<open>_create_agent_call_endpoint(...)\<close> returns the closure \<^verbatim>\<open>_on_request(data, request)\<close>:
  \<^verbatim>\<open>
  raw = request.query_params.get("full", "false").lower() == "true"
  input_state = _get_input_state_from_request(inputs, data)
  runner = Runner(input_path, ..., quiet, input_state)
  output_state = await runner.run()
  if raw:
      return output_state
  return output_state["output"]
  \<close>
\<close>

definition create_agent_call_endpoint ::
  "runner \<Rightarrow> runner_params \<Rightarrow> dict \<Rightarrow> dict \<Rightarrow> request \<Rightarrow> error + pyval" where
  "create_agent_call_endpoint run params inputs data request =
     (let raw = (lower (case query_params request ''full'' of None \<Rightarrow> ''false'' | Some s \<Rightarrow> s)
                   = ''true'') in
      case get_input_state_from_request inputs data of
        Inl e \<Rightarrow> Inl e
      | Inr input_state \<Rightarrow>
          (case run params input_state of
             Inl e \<Rightarrow> Inl e
           | Inr output_state \<Rightarrow>
               if raw then Inr (PDict output_state)
               else (case map_of output_state ''output'' of
                       None \<Rightarrow> Inl (KeyError ''output'')
                     | Some v \<Rightarrow> Inr v)))"

text \<open>
  A tool is a callable with \<^verbatim>\<open>__name__\<close> and \<^verbatim>\<open>__doc__\<close>; calling it with keyword
  arguments returns a value or raises.
\<close>

record tool =
  tool_name :: string
  tool_doc :: "string option"
  tool_call :: "dict \<Rightarrow> error + pyval"

text \<open>
  \<^verbatim>\<open>_create_tool_call_endpoint(tool)\<close> returns the closure
  \<^verbatim>\<open>_on_request(data=Body(default=None), request)\<close>:
  \<^verbatim>\<open>
  return {"result": await tool(**(data if data else {}))}
  \<close>
\<close>

definition create_tool_call_endpoint :: "tool \<Rightarrow> dict option \<Rightarrow> request \<Rightarrow> error + pyval" where
  "create_tool_call_endpoint tool data request =
     (let kwargs = (case data of None \<Rightarrow> [] | Some d \<Rightarrow> if d = [] then [] else d) in
      case tool_call tool kwargs of
        Inl e \<Rightarrow> Inl e
      | Inr v \<Rightarrow> Inr (PDict [(''result'', v)]))"


text \<open>
  A POST to a tool route. Before the closure runs, the framework checks the body against
  the type the closure declares for it on line 89,
  \<^verbatim>\<open>data: dict[str, str] = Body(default=None)\<close>: an absent body gives the default
  \<^verbatim>\<open>None\<close>, a JSON object passes when every value in it is a string, and any other JSON
  object is answered with \<^verbatim>\<open>RequestValidationError\<close> without the closure being called.
  The body here is a JSON object or absent.
\<close>

fun is_str :: "pyval \<Rightarrow> bool" where
  "is_str (PStr s) = True"
| "is_str v = False"

definition is_str_dict :: "dict \<Rightarrow> bool" where
  "is_str_dict d = list_all (\<lambda>(k, v). is_str v) d"

definition post_tool_route :: "tool \<Rightarrow> dict option \<Rightarrow> request \<Rightarrow> error + pyval" where
  "post_tool_route tool body request =
     (case body of
        None \<Rightarrow> create_tool_call_endpoint tool None request
      | Some d \<Rightarrow>
          if is_str_dict d then create_tool_call_endpoint tool (Some d) request
          else Inl RequestValidationError)"


section \<open>Route table: \<^verbatim>\<open>_get_rest_api_app\<close>\<close>

record configuration =
  description :: string
  system_prompt :: "string option"
  agent :: "string option"
  task :: "string option"

record runtime =
  tools :: "tool list"

text \<open>
  A route carries its handler, tagged with the kind of endpoint it is. The application
  is the list of routes added by \<^verbatim>\<open>add_api_route\<close>, in order; the framework's own
  documentation routes are not part of it. In \<^verbatim>\<open>if serve_tools and runtime\<close> a
  \<^verbatim>\<open>Runtime\<close> object is true and \<^verbatim>\<open>None\<close> is false.
\<close>

datatype endpoint =
    AgentCall "dict \<Rightarrow> request \<Rightarrow> error + pyval"
  | ToolCall "dict option \<Rightarrow> request \<Rightarrow> error + pyval"

record route =
  path :: string
  endpoint :: endpoint
  methods :: "string list"
  response_model :: string
  summary :: "string option"

type_synonym app = "route list"

definition add_api_route :: "app \<Rightarrow> route \<Rightarrow> app" where
  "add_api_route app r = app @ [r]"

definition is_agent_route :: "route \<Rightarrow> bool" where
  "is_agent_route r = (case endpoint r of AgentCall _ \<Rightarrow> True | ToolCall _ \<Rightarrow> False)"

definition tool_route :: "tool \<Rightarrow> route" where
  "tool_route tool =
     \<lparr>path = ''/'' @ tool_name tool,
      endpoint = ToolCall (create_tool_call_endpoint tool),
      methods = [''POST''],
      response_model = ''dict'',
      summary = tool_doc tool\<rparr>"

definition get_rest_api_app ::
  "runner \<Rightarrow> runner_params \<Rightarrow> dict \<Rightarrow> configuration \<Rightarrow> runtime option \<Rightarrow> bool \<Rightarrow> bool \<Rightarrow> app" where
  "get_rest_api_app run params inputs config runtime serve_tools tools_only =
     (let app0 = [];
          app1 = (if \<not> tools_only then
                    add_api_route app0
                      \<lparr>path = ''/'',
                       endpoint = AgentCall (create_agent_call_endpoint run params inputs),
                       methods = [''POST''],
                       response_model = ''dict'',
                       summary = Some (description config)\<rparr>
                  else app0)
      in case runtime of
           None \<Rightarrow> app1
         | Some rt \<Rightarrow>
             if serve_tools then foldl (\<lambda>app tool. add_api_route app (tool_route tool)) app1 (tools rt)
             else app1)"


section \<open>Startup: \<^verbatim>\<open>_serve\<close>\<close>

record serve_args =
  arg_input_path :: string
  arg_host :: string
  arg_port :: int
  arg_debug :: bool
  arg_mcp :: bool
  arg_mcp_sse :: bool
  arg_serve_tools :: bool
  arg_tools_only :: bool
  arg_generator :: string
  arg_conversation_strategy :: string
  arg_max_steps :: int
  arg_max_cost :: real
  arg_timeout :: "int option"
  arg_quiet :: bool

text \<open>
  What \<^verbatim>\<open>_serve\<close> calls outside this file: \<^verbatim>\<open>_get_agent_with_inputs\<close> (it reads the
  configuration from storage; \<open>None\<close> where it raises \<^verbatim>\<open>typer.Abort\<close>), the two
  \<^verbatim>\<open>pathlib\<close> queries, \<^verbatim>\<open>Runtime.build\<close> and the Runner.
\<close>

record world =
  get_agent_with_inputs :: "string \<Rightarrow> (string \<times> string \<times> configuration \<times> dict) option"
  path_is_dir :: "string \<Rightarrow> bool"
  path_parent :: "string \<Rightarrow> string"
  runtime_build :: "string \<Rightarrow> string \<Rightarrow> configuration \<Rightarrow> bool \<Rightarrow> runtime"
  runner_run :: runner

text \<open>The calls \<^verbatim>\<open>_serve\<close> makes, in program order.\<close>

datatype event =
    EvRuntimeBuild
  | EvCreateServer
  | EvCreateSseApp
  | EvGetRestApiApp
  | EvServeHttpApp string
  | EvStdioServerRun

text \<open>
  \<^verbatim>\<open>create_server\<close> lives in \<^verbatim>\<open>nerve.tools.mcp.server\<close>; the server it returns is
  represented by the arguments it is given.
\<close>

datatype mcp_server =
  McpServer string configuration dict runner_params "runtime option" bool bool

datatype serving =
    ServeRest app
  | ServeSse mcp_server
  | ServeStdio mcp_server

record startup =
  st_serve_tools :: bool
  st_tools_only :: bool
  st_runtime :: "runtime option"
  st_trace :: "event list"
  st_serving :: serving

text \<open>
  Lines 311 to 318: the mode, as the pair of the flags after resolution.
  \<^verbatim>\<open>
  if tools_only or not config.system_prompt and not config.agent and not config.task:
      serve_tools = True
      tools_only = True
  elif serve_tools: ...
  else: ...
  \<close>
  The two other branches only log.
\<close>

definition resolve_mode :: "bool \<Rightarrow> bool \<Rightarrow> configuration \<Rightarrow> bool \<times> bool" where
  "resolve_mode serve_tools tools_only config =
     (if tools_only \<or> (\<not> truthy (system_prompt config) \<and> \<not> truthy (agent config)
                        \<and> \<not> truthy (task config))
      then (True, True)
      else if serve_tools then (serve_tools, tools_only)
      else (serve_tools, tools_only))"

definition serve :: "world \<Rightarrow> serve_args \<Rightarrow> error + startup" where
  "serve w a =
     (case get_agent_with_inputs w (arg_input_path a) of
        None \<Rightarrow> Inl Abort
      | Some (input_path, agent_name, config, inputs) \<Rightarrow>
          (let (serve_tools, tools_only) = resolve_mode (arg_serve_tools a) (arg_tools_only a) config;
               (runtime, trace) =
                  (if serve_tools then
                     (Some (runtime_build w
                              (if path_is_dir w input_path then input_path
                               else path_parent w input_path)
                              agent_name config (arg_debug a)),
                      [EvRuntimeBuild])
                   else (None, []));
               params = \<lparr>rp_input_path = input_path,
                         rp_generator = arg_generator a,
                         rp_conversation_strategy = arg_conversation_strategy a,
                         rp_max_steps = arg_max_steps a,
                         rp_max_cost = arg_max_cost a,
                         rp_timeout = arg_timeout a,
                         rp_quiet = arg_quiet a\<rparr>
           in if arg_mcp a \<or> arg_mcp_sse a then
                (let server = McpServer agent_name config inputs params runtime serve_tools tools_only;
                     trace = trace @ [EvCreateServer]
                 in if arg_mcp_sse a then
                      Inr \<lparr>st_serve_tools = serve_tools, st_tools_only = tools_only,
                           st_runtime = runtime,
                           st_trace = trace @ [EvCreateSseApp, EvServeHttpApp ''sse''],
                           st_serving = ServeSse server\<rparr>
                    else
                      Inr \<lparr>st_serve_tools = serve_tools, st_tools_only = tools_only,
                           st_runtime = runtime,
                           st_trace = trace @ [EvStdioServerRun],
                           st_serving = ServeStdio server\<rparr>)
              else
                (let app = get_rest_api_app (runner_run w) params inputs config runtime
                             serve_tools tools_only
                 in Inr \<lparr>st_serve_tools = serve_tools, st_tools_only = tools_only,
                         st_runtime = runtime,
                         st_trace = trace @ [EvGetRestApiApp, EvServeHttpApp ''http''],
                         st_serving = ServeRest app\<rparr>)))"



section \<open>Concrete collaborators for the examples\<close>

text \<open>
  The concrete instances below need a Runner, a request, a tool and a startup
  environment. These are the simplest ones: a Runner that returns a fixed output state, a
  request that carries at most the query parameter \<^verbatim>\<open>full\<close>, a tool that returns its
  keyword arguments, and an environment whose loader returns a fixed agent.
\<close>

definition example_params :: runner_params where
  "example_params =
     \<lparr>rp_input_path = ''agent.yml'', rp_generator = ''gen'', rp_conversation_strategy = ''full'',
      rp_max_steps = 100, rp_max_cost = 10, rp_timeout = None, rp_quiet = False\<rparr>"

definition const_runner :: "dict \<Rightarrow> runner" where
  "const_runner output_state params input_state = Inr output_state"

definition request_with_full :: "string option \<Rightarrow> request" where
  "request_with_full full =
     \<lparr>query_params = (\<lambda>k. if k = ''full'' then full else None), client = None\<rparr>"

definition echo_tool :: tool where
  "echo_tool =
     \<lparr>tool_name = ''echo'', tool_doc = Some ''Echo the arguments.'',
      tool_call = (\<lambda>kwargs. Inr (PDict kwargs))\<rparr>"

definition example_config :: "string option \<Rightarrow> configuration" where
  "example_config prompt =
     \<lparr>description = ''A demo agent.'', system_prompt = prompt, agent = None, task = None\<rparr>"

definition example_world :: "configuration \<Rightarrow> world" where
  "example_world config =
     \<lparr>get_agent_with_inputs = (\<lambda>p. Some (p, ''demo'', config, [(''name'', PStr ''world'')])),
      path_is_dir = (\<lambda>p. False),
      path_parent = (\<lambda>p. ''.''),
      runtime_build = (\<lambda>working_dir name c debug. \<lparr>tools = [echo_tool]\<rparr>),
      runner_run = const_runner [(''output'', PStr ''done'')]\<rparr>"

definition example_args :: "bool \<Rightarrow> bool \<Rightarrow> serve_args" where
  "example_args serve_tools tools_only =
     \<lparr>arg_input_path = ''agent.yml'', arg_host = ''127.0.0.1'', arg_port = 8667,
      arg_debug = False, arg_mcp = False, arg_mcp_sse = False,
      arg_serve_tools = serve_tools, arg_tools_only = tools_only,
      arg_generator = ''gen'', arg_conversation_strategy = ''full'',
      arg_max_steps = 100, arg_max_cost = 10, arg_timeout = None, arg_quiet = False\<rparr>"


section \<open>Properties of the input resolver\<close>

lemma dict_keys_dict_set:
  "k \<in> set (dict_keys d) \<Longrightarrow> dict_keys (dict_set d k v) = dict_keys d"
  by (simp add: dict_keys_def dict_set_def update_keys)

lemma map_of_dict_set: "map_of (dict_set d k v) = (map_of d)(k \<mapsto> v)"
  by (simp add: dict_set_def update_conv')

lemma loop_keys:
  "input_state_loop inputs data ks st = Inr st' \<Longrightarrow> set ks \<subseteq> set (dict_keys st)
     \<Longrightarrow> dict_keys st' = dict_keys st"
proof (induction ks arbitrary: st)
  case Nil
  then show ?case by simp
next
  case (Cons k ks)
  then show ?case
    by (auto simp: dict_keys_dict_set split: if_splits)
qed

lemma loop_lookup:
  "input_state_loop inputs data ks st = Inr st' \<Longrightarrow>
     map_of st' k = (if k \<in> set ks then Some (input_value inputs data k) else map_of st k)"
proof (induction ks arbitrary: st)
  case Nil
  then show ?case by simp
next
  case (Cons x ks)
  then show ?case
    by (auto simp: map_of_dict_set split: if_splits)
qed

lemma loop_resolved:
  "input_state_loop inputs data ks st = Inr st' \<Longrightarrow> k \<in> set ks \<Longrightarrow>
     input_value inputs data k \<noteq> PNone"
proof (induction ks arbitrary: st)
  case Nil
  then show ?case by simp
next
  case (Cons x ks)
  then show ?case
    by (auto split: if_splits)
qed

text \<open>The loop stops at the first name, in key order, whose value is \<^verbatim>\<open>None\<close>.\<close>

lemma loop_find:
  "input_state_loop inputs data ks st =
     (case find (\<lambda>k. input_value inputs data k = PNone) ks of
        Some m \<Rightarrow> Inl (HTTPException 400 (required_detail m))
      | None \<Rightarrow> Inr (foldl (\<lambda>s k. dict_set s k (input_value inputs data k)) st ks))"
  by (induction ks arbitrary: st) (auto split: option.splits)

lemma find_first:
  "n \<in> set xs \<Longrightarrow> P n \<Longrightarrow>
     \<exists>m. find P xs = Some m \<and> P m \<and> m \<in> set xs
          \<and> ((\<forall>k\<in>set (takeWhile (\<lambda>k. k \<noteq> n) xs). \<not> P k) \<longrightarrow> m = n)"
  by (induction xs) auto

lemma first_unresolved:
  assumes "n \<in> set (dict_keys inputs)" and "input_value inputs data n = PNone"
  shows "\<exists>m. find (\<lambda>k. input_value inputs data k = PNone) (dict_keys inputs) = Some m
           \<and> m \<in> set (dict_keys inputs) \<and> input_value inputs data m = PNone
           \<and> get_input_state_from_request inputs data = Inl (HTTPException 400 (required_detail m))
           \<and> ((\<forall>k\<in>set (takeWhile (\<lambda>k. k \<noteq> n) (dict_keys inputs)).
                  input_value inputs data k \<noteq> PNone) \<longrightarrow> m = n)"
proof -
  from find_first[of n "dict_keys inputs" "\<lambda>k. input_value inputs data k = PNone", OF assms]
  obtain m where m: "find (\<lambda>k. input_value inputs data k = PNone) (dict_keys inputs) = Some m"
      "input_value inputs data m = PNone" "m \<in> set (dict_keys inputs)"
      "(\<forall>k\<in>set (takeWhile (\<lambda>k. k \<noteq> n) (dict_keys inputs)). input_value inputs data k \<noteq> PNone) \<longrightarrow> m = n"
    by blast
  have "get_input_state_from_request inputs data = Inl (HTTPException 400 (required_detail m))"
    by (simp add: get_input_state_from_request_def loop_find m(1))
  with m show ?thesis by blast
qed

lemma map_of_declared: "map_of inputs n = Some d \<Longrightarrow> n \<in> set (dict_keys inputs)"
  by (auto simp: dict_keys_def dest: map_of_SomeD intro: rev_image_eqI)

lemma resolution_succeeds_iff:
  "(\<exists>st. get_input_state_from_request inputs data = Inr st) \<longleftrightarrow>
     (\<forall>k\<in>set (dict_keys inputs). input_value inputs data k \<noteq> PNone)"
  by (auto simp: get_input_state_from_request_def loop_find find_None_iff find_Some_iff
      split: option.splits)

text \<open>The resolved value of line 39 in terms of the two dictionaries.\<close>

lemma input_value_null_iff:
  "input_value inputs data k = PNone \<longleftrightarrow>
     (case map_of data k of
        Some v \<Rightarrow> v = PNone
      | None \<Rightarrow> (case map_of inputs k of Some d \<Rightarrow> d = PNone | None \<Rightarrow> True))"
  by (simp add: input_value_def dict_get_def split: option.splits)

lemma declared_has_default: "k \<in> set (dict_keys inputs) \<Longrightarrow> \<exists>d. map_of inputs k = Some d"
  by (cases "map_of inputs k") (auto simp: dict_keys_def map_of_eq_None_iff)

lemma input_value_resolves_iff:
  "k \<in> set (dict_keys inputs) \<Longrightarrow>
   input_value inputs data k \<noteq> PNone \<longleftrightarrow>
     (case map_of data k of
        Some v \<Rightarrow> v \<noteq> PNone
      | None \<Rightarrow> (\<exists>d. map_of inputs k = Some d \<and> d \<noteq> PNone))"
  using declared_has_default[of k inputs]
  by (auto simp: input_value_def dict_get_def split: option.splits)

text \<open>Keys of the payload that are not declared never reach the loop.\<close>

lemma map_of_filter_keys:
  "map_of (filter (\<lambda>(k, v). k \<in> A) xs) k = (if k \<in> A then map_of xs k else None)"
  by (induction xs) auto

lemma input_value_filter:
  "k \<in> set (dict_keys inputs) \<Longrightarrow>
     input_value inputs (filter (\<lambda>(k, v). k \<in> set (dict_keys inputs)) data) k
       = input_value inputs data k"
  by (simp add: input_value_def dict_get_def map_of_filter_keys)

lemma loop_cong:
  "(\<And>k. k \<in> set ks \<Longrightarrow> input_value inputs data' k = input_value inputs data k) \<Longrightarrow>
     input_state_loop inputs data' ks st = input_state_loop inputs data ks st"
  by (induction ks arbitrary: st) auto

lemma undeclared_ignored:
  "get_input_state_from_request inputs (filter (\<lambda>(k, v). k \<in> set (dict_keys inputs)) data)
     = get_input_state_from_request inputs data"
  unfolding get_input_state_from_request_def
  by (rule loop_cong) (rule input_value_filter)


section \<open>Properties of the handlers and of the route table\<close>

text \<open>How \<open>lower\<close> acts on the query values used below.\<close>

lemma lower_true: "lower ''true'' = ''true''" by code_simp
lemma lower_false: "lower ''false'' \<noteq> ''true''" by code_simp
lemma lower_TRUE: "lower ''TRUE'' = ''true''" by code_simp
lemma lower_True: "lower ''True'' = ''true''" by code_simp
lemma lower_yes: "lower ''yes'' \<noteq> ''true''" by code_simp

text \<open>A value stored in a dictionary is not that dictionary.\<close>

lemma size_entry: "(k, v) \<in> set d \<Longrightarrow> size v \<le> size_list (size_prod (\<lambda>x. 0) size) d"
  by (induction d) auto

lemma entry_not_dict: "map_of d k = Some v \<Longrightarrow> v \<noteq> PDict d"
  using size_entry[of k v d] by (auto dest: map_of_SomeD)

text \<open>The example of the specification, used by the concrete instances.\<close>

lemma resolve_example:
  "get_input_state_from_request [(''name'', PStr ''world'')] [] = Inr [(''name'', PStr ''world'')]"
  by (simp add: get_input_state_from_request_def dict_keys_def input_value_def dict_get_def
      dict_set_def)

text \<open>The loop over \<^verbatim>\<open>runtime.tools\<close> appends one route per tool, in order.\<close>

lemma foldl_add_api_route:
  "foldl (\<lambda>app tool. app @ [tool_route tool]) app ts = app @ map tool_route ts"
  by (induction ts arbitrary: app) simp_all

lemma get_rest_api_app_routes:
  "get_rest_api_app run params inputs config runtime serve_tools tools_only =
     (if tools_only then []
      else [\<lparr>path = ''/'',
             endpoint = AgentCall (create_agent_call_endpoint run params inputs),
             methods = [''POST''],
             response_model = ''dict'',
             summary = Some (description config)\<rparr>])
     @ (case runtime of
          None \<Rightarrow> []
        | Some rt \<Rightarrow> if serve_tools then map tool_route (tools rt) else [])"
  by (simp add: get_rest_api_app_def Let_def add_api_route_def foldl_add_api_route
      split: option.splits)

lemma tool_route_not_agent: "\<not> is_agent_route (tool_route tool)"
  by (simp add: is_agent_route_def tool_route_def)

text \<open>The two outcomes of the mode decision, and the loader of the example environment.\<close>

lemma resolve_mode_tools_only:
  "tools_only \<or> (\<not> truthy (system_prompt config) \<and> \<not> truthy (agent config)
      \<and> \<not> truthy (task config)) \<Longrightarrow>
   resolve_mode serve_tools tools_only config = (True, True)"
  by (simp add: resolve_mode_def)

lemma resolve_mode_other:
  "\<not> tools_only \<Longrightarrow> truthy (system_prompt config) \<or> truthy (agent config) \<or> truthy (task config) \<Longrightarrow>
   resolve_mode serve_tools tools_only config = (serve_tools, False)"
  by (auto simp: resolve_mode_def)

lemma example_loaded:
  "get_agent_with_inputs (example_world config) (arg_input_path (example_args serve_tools tools_only))
     = Some (''agent.yml'', ''demo'', config, [(''name'', PStr ''world'')])"
  by (simp add: example_world_def example_args_def)


section \<open>Claims about the input resolver\<close>

text \<open>
  C2. Input resolution with defaults. Resolution returns an input state exactly when
  every declared input has a non-null supplied value or, with no entry in the payload, a
  non-null default. In the state it returns, a declared input with a non-null default
  that the payload does not mention is bound to that default, and a declared input the
  payload does supply is bound to the supplied value, which takes precedence over the
  default.
\<close>

theorem resolve_default_and_precedence:
  "((\<forall>k\<in>set (dict_keys inputs).
        (case map_of data k of
           Some v \<Rightarrow> v \<noteq> PNone
         | None \<Rightarrow> (\<exists>d. map_of inputs k = Some d \<and> d \<noteq> PNone)))
      \<longleftrightarrow> (\<exists>input_state. get_input_state_from_request inputs data = Inr input_state))
   \<and> (\<forall>input_state. get_input_state_from_request inputs data = Inr input_state \<longrightarrow>
         (\<forall>n d. map_of inputs n = Some d \<and> d \<noteq> PNone \<and> map_of data n = None \<longrightarrow>
                  map_of input_state n = Some d)
       \<and> (\<forall>n v. n \<in> set (dict_keys inputs) \<and> map_of data n = Some v \<longrightarrow>
                  map_of input_state n = Some v \<and> v \<noteq> PNone))"
proof -
  have iff: "(\<forall>k\<in>set (dict_keys inputs).
        (case map_of data k of
           Some v \<Rightarrow> v \<noteq> PNone
         | None \<Rightarrow> (\<exists>d. map_of inputs k = Some d \<and> d \<noteq> PNone)))
      \<longleftrightarrow> (\<exists>input_state. get_input_state_from_request inputs data = Inr input_state)"
    unfolding resolution_succeeds_iff
    by (rule ball_cong[OF refl]) (simp only: input_value_resolves_iff)
  have dflt: "map_of input_state n = Some d"
    if s: "get_input_state_from_request inputs data = Inr input_state"
      and n: "map_of inputs n = Some d \<and> d \<noteq> PNone \<and> map_of data n = None"
    for input_state n d
  proof -
    have "n \<in> set (dict_keys inputs)"
      using n by (auto intro: map_of_declared)
    then have "map_of input_state n = Some (input_value inputs data n)"
      using loop_lookup[of inputs data "dict_keys inputs" inputs input_state n] s
      by (simp add: get_input_state_from_request_def)
    then show ?thesis
      using n by (simp add: input_value_def dict_get_def)
  qed
  have prec: "map_of input_state n = Some v \<and> v \<noteq> PNone"
    if s: "get_input_state_from_request inputs data = Inr input_state"
      and n: "n \<in> set (dict_keys inputs) \<and> map_of data n = Some v"
    for input_state n v
  proof -
    have l: "map_of input_state n = Some (input_value inputs data n)"
      using loop_lookup[of inputs data "dict_keys inputs" inputs input_state n] s n
      by (simp add: get_input_state_from_request_def)
    have r: "input_value inputs data n \<noteq> PNone"
      using loop_resolved[of inputs data "dict_keys inputs" inputs input_state n] s n
      by (simp add: get_input_state_from_request_def)
    show ?thesis
      using l r n by (simp add: input_value_def dict_get_def)
  qed
  show ?thesis
    using iff dflt prec by blast
qed

text \<open>
  A payload that overrides one default and leaves the other, and the example of the
  specification: declared \<^verbatim>\<open>{"name": "world"}\<close>, empty body.
\<close>

theorem resolve_default_and_precedence_witness:
  "get_input_state_from_request [(''name'', PStr ''world''), (''city'', PStr ''Rome'')]
       [(''name'', PStr ''bob'')]
     = Inr [(''name'', PStr ''bob''), (''city'', PStr ''Rome'')]
   \<and> map_of [(''name'', PStr ''bob''), (''city'', PStr ''Rome'')] ''name'' = Some (PStr ''bob'')
   \<and> map_of [(''name'', PStr ''bob''), (''city'', PStr ''Rome'')] ''city'' = Some (PStr ''Rome'')
   \<and> get_input_state_from_request [(''name'', PStr ''world'')] [] = Inr [(''name'', PStr ''world'')]"
proof -
  let ?inputs = "[(''name'', PStr ''world''), (''city'', PStr ''Rome'')]"
  let ?data = "[(''name'', PStr ''bob'')]"
  have h: "\<forall>k\<in>set (dict_keys ?inputs).
        (case map_of ?data k of
           Some v \<Rightarrow> v \<noteq> PNone
         | None \<Rightarrow> (\<exists>d. map_of ?inputs k = Some d \<and> d \<noteq> PNone))"
    by (simp add: dict_keys_def)
  from resolve_default_and_precedence[of ?inputs ?data] h
  obtain st where st: "get_input_state_from_request ?inputs ?data = Inr st"
    and d: "\<forall>n d. map_of ?inputs n = Some d \<and> d \<noteq> PNone \<and> map_of ?data n = None \<longrightarrow>
                  map_of st n = Some d"
    and p: "\<forall>n v. n \<in> set (dict_keys ?inputs) \<and> map_of ?data n = Some v \<longrightarrow>
                  map_of st n = Some v \<and> v \<noteq> PNone"
    by blast
  have e: "get_input_state_from_request ?inputs ?data
             = Inr [(''name'', PStr ''bob''), (''city'', PStr ''Rome'')]"
    by (simp add: get_input_state_from_request_def dict_keys_def input_value_def dict_get_def
        dict_set_def)
  have "map_of st ''city'' = Some (PStr ''Rome'')"
    using d by simp
  moreover have "map_of st ''name'' = Some (PStr ''bob'')"
    using p by (simp add: dict_keys_def)
  ultimately show ?thesis
    using st e resolve_example by simp
qed

text \<open>
  C3, as stated, fails: with two required inputs \<^verbatim>\<open>a\<close> and \<^verbatim>\<open>b\<close> both omitted, the
  loop raises at \<^verbatim>\<open>a\<close>, so the message does not name \<^verbatim>\<open>b\<close>.
\<close>

theorem missing_required_input_counterexample:
  "map_of [(''a'', PNone), (''b'', PNone)] ''b'' = Some PNone
   \<and> map_of ([] :: dict) ''b'' = None
   \<and> get_input_state_from_request [(''a'', PNone), (''b'', PNone)] []
       = Inl (HTTPException 400 ''input 'a' is required'')
   \<and> get_input_state_from_request [(''a'', PNone), (''b'', PNone)] []
       \<noteq> Inl (HTTPException 400 ''input 'b' is required'')"
  by (simp add: get_input_state_from_request_def dict_keys_def input_value_def dict_get_def
      required_detail_def)

text \<open>
  C3, amended. Missing required input: if a declared input has a null default and the
  payload omits it, resolution fails with \<^verbatim>\<open>HTTPException(400)\<close> and returns no input
  state. An input resolves to its supplied value when the payload has an entry for it,
  even a null one, and to its declared default otherwise; the message is
  \<^verbatim>\<open>input '<m>' is required\<close> where \<^verbatim>\<open>m\<close> is the first declared input, in declaration
  order, that resolves to null. It names the omitted input itself whenever no input
  declared before it resolves to null.
\<close>

theorem missing_required_input:
  assumes "map_of inputs n = Some PNone" and "map_of data n = None"
  shows "\<exists>m. find (\<lambda>k. case map_of data k of
                          Some v \<Rightarrow> v = PNone
                        | None \<Rightarrow> (case map_of inputs k of Some d \<Rightarrow> d = PNone | None \<Rightarrow> True))
                 (dict_keys inputs) = Some m
           \<and> get_input_state_from_request inputs data
                = Inl (HTTPException 400 (''input '' @ [CHR 0x27] @ m @ [CHR 0x27] @ '' is required''))
           \<and> (\<forall>st. get_input_state_from_request inputs data \<noteq> Inr st)
           \<and> ((\<forall>k\<in>set (takeWhile (\<lambda>k. k \<noteq> n) (dict_keys inputs)).
                  \<not> (case map_of data k of
                        Some v \<Rightarrow> v = PNone
                      | None \<Rightarrow> (case map_of inputs k of Some d \<Rightarrow> d = PNone | None \<Rightarrow> True)))
                \<longrightarrow> m = n)"
proof -
  have n: "n \<in> set (dict_keys inputs)"
    using assms(1) by (rule map_of_declared)
  have v: "input_value inputs data n = PNone"
    using assms by (simp add: input_value_def dict_get_def)
  from first_unresolved[OF n v] show ?thesis
    unfolding input_value_null_iff by (auto simp: required_detail_def)
qed

theorem missing_required_input_witness:
  "map_of [(''a'', PStr ''x''), (''b'', PNone)] ''b'' = Some PNone
   \<and> map_of [(''c'', PStr ''y'')] ''b'' = None
   \<and> get_input_state_from_request [(''a'', PStr ''x''), (''b'', PNone)] [(''c'', PStr ''y'')]
        = Inl (HTTPException 400 ''input 'b' is required'')"
proof -
  have a: "map_of [(''a'', PStr ''x''), (''b'', PNone)] ''b'' = Some PNone" by simp
  have b: "map_of [(''c'', PStr ''y'')] ''b'' = None" by simp
  from missing_required_input[OF a b] a b show ?thesis
    by (auto simp: dict_keys_def)
qed

text \<open>
  C7. Invariant of the resolved input state: whenever resolution succeeds, the state has
  exactly the declared names as keys (in the declared order), every value in it is
  non-null, no undeclared key of the payload appears in it, and the undeclared keys are
  ignored: dropping them from the payload gives the same state.
\<close>

theorem resolved_state_invariant:
  assumes "get_input_state_from_request inputs data = Inr input_state"
  shows "dict_keys input_state = dict_keys inputs
       \<and> (\<forall>k v. map_of input_state k = Some v \<longrightarrow> v \<noteq> PNone)
       \<and> (distinct (dict_keys inputs) \<longrightarrow> (\<forall>(k, v)\<in>set input_state. v \<noteq> PNone))
       \<and> (\<forall>k. k \<notin> set (dict_keys inputs) \<longrightarrow> map_of input_state k = None)
       \<and> get_input_state_from_request inputs
            (filter (\<lambda>(k, v). k \<in> set (dict_keys inputs)) data) = Inr input_state"
proof -
  have loop: "input_state_loop inputs data (dict_keys inputs) inputs = Inr input_state"
    using assms by (simp add: get_input_state_from_request_def)
  have keys: "dict_keys input_state = dict_keys inputs"
    using loop_keys[OF loop] by simp
  have vals: "v \<noteq> PNone" if "map_of input_state k = Some v" for k v
  proof -
    have "k \<in> set (dict_keys input_state)"
      using that by (rule map_of_declared)
    then have k: "k \<in> set (dict_keys inputs)"
      by (simp add: keys)
    have "v = input_value inputs data k"
      using loop_lookup[OF loop, of k] k that by simp
    then show ?thesis
      using loop_resolved[OF loop k] by simp
  qed
  have entries: "\<forall>(k, v)\<in>set input_state. v \<noteq> PNone" if "distinct (dict_keys inputs)"
  proof -
    have "distinct (map fst input_state)"
      using that keys by (simp add: dict_keys_def)
    then show ?thesis
      using vals by (auto dest: map_of_is_SomeI)
  qed
  have extra: "map_of input_state k = None" if "k \<notin> set (dict_keys inputs)" for k
  proof -
    have "k \<notin> fst ` set input_state"
      using that keys by (simp add: dict_keys_def flip: set_map)
    then show ?thesis
      by (simp add: map_of_eq_None_iff)
  qed
  show ?thesis
    using keys vals entries extra assms by (simp add: undeclared_ignored)
qed

theorem resolved_state_invariant_witness:
  "get_input_state_from_request [(''name'', PStr ''world''), (''city'', PNone)]
       [(''city'', PStr ''Rome''), (''extra'', PInt 1)]
     = Inr [(''name'', PStr ''world''), (''city'', PStr ''Rome'')]
   \<and> dict_keys [(''name'', PStr ''world''), (''city'', PStr ''Rome'')] = [''name'', ''city'']
   \<and> map_of [(''name'', PStr ''world''), (''city'', PStr ''Rome'')] ''extra'' = None"
proof -
  have h: "get_input_state_from_request [(''name'', PStr ''world''), (''city'', PNone)]
             [(''city'', PStr ''Rome''), (''extra'', PInt 1)]
           = Inr [(''name'', PStr ''world''), (''city'', PStr ''Rome'')]"
    by (simp add: get_input_state_from_request_def dict_keys_def input_value_def dict_get_def
        dict_set_def)
  from resolved_state_invariant[OF h] h show ?thesis
    by (simp add: dict_keys_def)
qed

text \<open>
  C9, as stated, fails on the name in the message: \<^verbatim>\<open>b\<close> is supplied as null, yet the
  loop raises earlier, at the required input \<^verbatim>\<open>a\<close>.
\<close>

theorem null_supplied_counterexample:
  "''b'' \<in> set (dict_keys [(''a'', PNone), (''b'', PStr ''x'')])
   \<and> map_of [(''b'', PNone)] ''b'' = Some PNone
   \<and> get_input_state_from_request [(''a'', PNone), (''b'', PStr ''x'')] [(''b'', PNone)]
       = Inl (HTTPException 400 ''input 'a' is required'')
   \<and> get_input_state_from_request [(''a'', PNone), (''b'', PStr ''x'')] [(''b'', PNone)]
       \<noteq> Inl (HTTPException 400 ''input 'b' is required'')"
  by (simp add: get_input_state_from_request_def dict_keys_def input_value_def dict_get_def
      required_detail_def)

text \<open>
  C9, amended. A supplied null is treated as missing: if the payload binds a declared
  input to null, resolution fails with \<^verbatim>\<open>HTTPException(400)\<close> whatever default that
  input declares, because the supplied null shadows the default. The message is
  \<^verbatim>\<open>input '<m>' is required\<close> for the first declared input, in declaration order,
  without a non-null value; it names the null-bound input itself whenever every input
  declared before it has a non-null value.
\<close>

theorem null_supplied_is_missing:
  assumes "n \<in> set (dict_keys inputs)" and "map_of data n = Some PNone"
  shows "\<exists>m. find (\<lambda>k. input_value inputs data k = PNone) (dict_keys inputs) = Some m
           \<and> get_input_state_from_request inputs data
                = Inl (HTTPException 400 (''input '' @ [CHR 0x27] @ m @ [CHR 0x27] @ '' is required''))
           \<and> ((\<forall>k\<in>set (takeWhile (\<lambda>k. k \<noteq> n) (dict_keys inputs)).
                  input_value inputs data k \<noteq> PNone) \<longrightarrow> m = n)"
proof -
  have v: "input_value inputs data n = PNone"
    using assms(2) by (simp add: input_value_def dict_get_def)
  from first_unresolved[OF assms(1) v] show ?thesis
    by (auto simp: required_detail_def)
qed

theorem null_supplied_is_missing_witness:
  "''name'' \<in> set (dict_keys [(''name'', PStr ''world'')])
   \<and> map_of [(''name'', PNone)] ''name'' = Some PNone
   \<and> map_of [(''name'', PStr ''world'')] ''name'' = Some (PStr ''world'')
   \<and> get_input_state_from_request [(''name'', PStr ''world'')] [(''name'', PNone)]
        = Inl (HTTPException 400 ''input 'name' is required'')"
proof -
  have a: "''name'' \<in> set (dict_keys [(''name'', PStr ''world'')])"
    by (simp add: dict_keys_def)
  have b: "map_of [(''name'', PNone)] ''name'' = Some PNone" by simp
  have c: "\<forall>k\<in>set (takeWhile (\<lambda>k. k \<noteq> ''name'') (dict_keys [(''name'', PStr ''world'')])).
             input_value [(''name'', PStr ''world'')] [(''name'', PNone)] k \<noteq> PNone"
    by (simp add: dict_keys_def)
  from null_supplied_is_missing[OF a b] c a b show ?thesis
    by auto
qed


section \<open>Claims about the request handlers\<close>

text \<open>
  C4, as stated, fails: the handler lowers the query value before comparing it, so
  \<^verbatim>\<open>full=TRUE\<close>, a value other than \<^verbatim>\<open>"true"\<close>, returns the whole output state and
  not the value under \<^verbatim>\<open>output\<close>.
\<close>

theorem agent_response_shape_counterexample:
  "''TRUE'' \<noteq> ''true''
   \<and> create_agent_call_endpoint (const_runner [(''output'', PStr ''done'')]) example_params
        [(''name'', PStr ''world'')] [] (request_with_full (Some ''TRUE''))
       = Inr (PDict [(''output'', PStr ''done'')])
   \<and> map_of [(''output'', PStr ''done'')] ''output'' = Some (PStr ''done'')
   \<and> create_agent_call_endpoint (const_runner [(''output'', PStr ''done'')]) example_params
        [(''name'', PStr ''world'')] [] (request_with_full (Some ''TRUE''))
       \<noteq> Inr (PStr ''done'')"
  by (simp add: create_agent_call_endpoint_def resolve_example const_runner_def
      request_with_full_def lower_TRUE)

text \<open>
  C4, amended. Response shape of the agent endpoint: every successful invocation has
  resolved the inputs and run the Runner; if the query parameter \<^verbatim>\<open>full\<close>, lowered,
  equals \<^verbatim>\<open>"true"\<close> (so for \<^verbatim>\<open>true\<close>, \<^verbatim>\<open>True\<close>, \<^verbatim>\<open>TRUE\<close>, ...) the response is the
  whole output state returned by the Runner, and otherwise (parameter absent, or any
  value that does not lower to \<^verbatim>\<open>"true"\<close>) the response is exactly the value stored
  under \<^verbatim>\<open>output\<close>, never the surrounding map.
\<close>

theorem agent_response_shape:
  assumes "create_agent_call_endpoint run params inputs data request = Inr response"
  shows "\<exists>input_state output_state.
           get_input_state_from_request inputs data = Inr input_state
         \<and> run params input_state = Inr output_state
         \<and> (if lower (case query_params request ''full'' of None \<Rightarrow> ''false'' | Some s \<Rightarrow> s) = ''true''
            then response = PDict output_state
            else map_of output_state ''output'' = Some response \<and> response \<noteq> PDict output_state)
         \<and> (query_params request ''full'' = Some ''true'' \<longrightarrow> response = PDict output_state)
         \<and> (query_params request ''full'' = None \<longrightarrow>
               map_of output_state ''output'' = Some response \<and> response \<noteq> PDict output_state)"
  using assms
  by (auto simp: create_agent_call_endpoint_def Let_def lower_true lower_false entry_not_dict
      split: sum.splits if_splits option.splits)

theorem agent_response_shape_witness:
  "create_agent_call_endpoint (const_runner [(''output'', PStr ''done''), (''steps'', PInt 3)])
      example_params [(''name'', PStr ''world'')] [] (request_with_full None)
     = Inr (PStr ''done'')
   \<and> create_agent_call_endpoint (const_runner [(''output'', PStr ''done''), (''steps'', PInt 3)])
      example_params [(''name'', PStr ''world'')] [] (request_with_full (Some ''true''))
     = Inr (PDict [(''output'', PStr ''done''), (''steps'', PInt 3)])"
proof -
  let ?run = "const_runner [(''output'', PStr ''done''), (''steps'', PInt 3)]"
  have a: "create_agent_call_endpoint ?run example_params [(''name'', PStr ''world'')] []
             (request_with_full None) = Inr (PStr ''done'')"
    by (simp add: create_agent_call_endpoint_def resolve_example const_runner_def
        request_with_full_def lower_false)
  have b: "create_agent_call_endpoint ?run example_params [(''name'', PStr ''world'')] []
             (request_with_full (Some ''true''))
           = Inr (PDict [(''output'', PStr ''done''), (''steps'', PInt 3)])"
    by (simp add: create_agent_call_endpoint_def resolve_example const_runner_def
        request_with_full_def lower_true)
  from agent_response_shape[OF a] agent_response_shape[OF b] a b show ?thesis
    by simp
qed

text \<open>
  C10, as stated, fails: with \<^verbatim>\<open>full=True\<close>, which is not \<^verbatim>\<open>"true"\<close>, the handler
  does not index the output state, and a Runner output without the key \<^verbatim>\<open>output\<close> is
  returned normally.
\<close>

theorem output_key_access_counterexample:
  "''True'' \<noteq> ''true''
   \<and> map_of ([] :: dict) ''output'' = None
   \<and> create_agent_call_endpoint (const_runner []) example_params
        [(''name'', PStr ''world'')] [] (request_with_full (Some ''True''))
       = Inr (PDict [])"
  by (simp add: create_agent_call_endpoint_def resolve_example const_runner_def
      request_with_full_def lower_True)

text \<open>
  C10, amended. When the query parameter \<^verbatim>\<open>full\<close>, lowered, is not \<^verbatim>\<open>"true"\<close>, the
  handler indexes the Runner's output state at \<^verbatim>\<open>output\<close>: if the key is there the
  handler returns the value stored under it, and if the key is missing the handler raises
  \<^verbatim>\<open>KeyError\<close> instead of returning a response.
\<close>

theorem output_key_access:
  assumes "get_input_state_from_request inputs data = Inr input_state"
      and "run params input_state = Inr output_state"
      and "lower (case query_params request ''full'' of None \<Rightarrow> ''false'' | Some s \<Rightarrow> s) \<noteq> ''true''"
  shows "(\<forall>v. map_of output_state ''output'' = Some v \<longrightarrow>
             create_agent_call_endpoint run params inputs data request = Inr v)
       \<and> (map_of output_state ''output'' = None \<longrightarrow>
             create_agent_call_endpoint run params inputs data request = Inl (KeyError ''output''))"
  using assms by (simp add: create_agent_call_endpoint_def)

theorem output_key_access_witness:
  "get_input_state_from_request [(''name'', PStr ''world'')] [] = Inr [(''name'', PStr ''world'')]
   \<and> const_runner [(''steps'', PInt 3)] example_params [(''name'', PStr ''world'')]
       = Inr [(''steps'', PInt 3)]
   \<and> lower ''yes'' \<noteq> ''true''
   \<and> map_of [(''steps'', PInt 3)] ''output'' = None
   \<and> create_agent_call_endpoint (const_runner [(''steps'', PInt 3)]) example_params
        [(''name'', PStr ''world'')] [] (request_with_full (Some ''yes''))
       = Inl (KeyError ''output'')"
proof -
  have r: "const_runner [(''steps'', PInt 3)] example_params [(''name'', PStr ''world'')]
             = Inr [(''steps'', PInt 3)]"
    by (simp add: const_runner_def)
  have q: "lower (case query_params (request_with_full (Some ''yes'')) ''full'' of
                    None \<Rightarrow> ''false'' | Some s \<Rightarrow> s) \<noteq> ''true''"
    by (simp add: request_with_full_def lower_yes)
  from output_key_access[where run = "const_runner [(''steps'', PInt 3)]"
         and params = example_params, OF resolve_example r q]
    resolve_example r lower_yes
  show ?thesis
    by simp
qed

text \<open>
  C6, as stated, fails: the body of a tool route is declared \<^verbatim>\<open>dict[str, str]\<close>, so a
  JSON object with a value that is not a string, here \<^verbatim>\<open>{"n": 1}\<close>, is answered with a
  validation error and is not forwarded to the tool.
\<close>

theorem tool_invocation_counterexample:
  "echo_tool \<in> set (tools \<lparr>tools = [echo_tool]\<rparr>)
   \<and> tool_call echo_tool [(''n'', PInt 1)] = Inr (PDict [(''n'', PInt 1)])
   \<and> post_tool_route echo_tool (Some [(''n'', PInt 1)]) (request_with_full None)
       = Inl RequestValidationError
   \<and> post_tool_route echo_tool (Some [(''n'', PInt 1)]) (request_with_full None)
       \<noteq> Inr (PDict [(''result'', PDict [(''n'', PInt 1)])])"
  by (simp add: post_tool_route_def is_str_dict_def echo_tool_def)

text \<open>
  C6, amended. Tool invocation: every registered tool has a route at \<^verbatim>\<open>/<name>\<close>
  (method POST). A POST whose JSON object body has only string values calls the tool with
  exactly the keyword arguments of the body, without checking them against any schema of
  the tool, and returns what the tool returns wrapped as \<^verbatim>\<open>{"result": value}\<close>; what
  the tool raises propagates. An empty or an absent body calls the tool with no
  arguments. A body with a value that is not a string is rejected with a validation
  error before the handler runs. The handler itself forwards whatever dictionary it is
  given.
\<close>

theorem tool_invocation:
  assumes "tool \<in> set (tools rt)"
  shows "(\<exists>r\<in>set (get_rest_api_app run params inputs config (Some rt) True tools_only).
            path r = ''/'' @ tool_name tool \<and> methods r = [''POST'']
          \<and> endpoint r = ToolCall (create_tool_call_endpoint tool))
       \<and> (is_str_dict d \<longrightarrow>
            post_tool_route tool (Some d) request
              = (case tool_call tool d of Inl e \<Rightarrow> Inl e | Inr v \<Rightarrow> Inr (PDict [(''result'', v)])))
       \<and> (\<not> is_str_dict d \<longrightarrow>
            post_tool_route tool (Some d) request = Inl RequestValidationError)
       \<and> post_tool_route tool None request
           = (case tool_call tool [] of Inl e \<Rightarrow> Inl e | Inr v \<Rightarrow> Inr (PDict [(''result'', v)]))
       \<and> post_tool_route tool (Some []) request
           = (case tool_call tool [] of Inl e \<Rightarrow> Inl e | Inr v \<Rightarrow> Inr (PDict [(''result'', v)]))
       \<and> create_tool_call_endpoint tool (Some d) request
           = (case tool_call tool d of Inl e \<Rightarrow> Inl e | Inr v \<Rightarrow> Inr (PDict [(''result'', v)]))
       \<and> create_tool_call_endpoint tool None request
           = (case tool_call tool [] of Inl e \<Rightarrow> Inl e | Inr v \<Rightarrow> Inr (PDict [(''result'', v)]))
       \<and> create_tool_call_endpoint tool (Some []) request
           = (case tool_call tool [] of Inl e \<Rightarrow> Inl e | Inr v \<Rightarrow> Inr (PDict [(''result'', v)]))"
proof -
  have "tool_route tool \<in> set (get_rest_api_app run params inputs config (Some rt) True tools_only)"
    using assms by (simp add: get_rest_api_app_routes)
  then have "\<exists>r\<in>set (get_rest_api_app run params inputs config (Some rt) True tools_only).
            path r = ''/'' @ tool_name tool \<and> methods r = [''POST'']
          \<and> endpoint r = ToolCall (create_tool_call_endpoint tool)"
    by (rule bexI[rotated]) (simp add: tool_route_def)
  then show ?thesis
    by (simp add: post_tool_route_def create_tool_call_endpoint_def is_str_dict_def)
qed

theorem tool_invocation_witness:
  "echo_tool \<in> set (tools \<lparr>tools = [echo_tool]\<rparr>)
   \<and> is_str_dict [(''text'', PStr ''hi'')]
   \<and> post_tool_route echo_tool (Some [(''text'', PStr ''hi'')]) (request_with_full None)
       = Inr (PDict [(''result'', PDict [(''text'', PStr ''hi'')])])
   \<and> post_tool_route echo_tool None (request_with_full None)
       = Inr (PDict [(''result'', PDict [])])"
proof -
  have m: "echo_tool \<in> set (tools \<lparr>tools = [echo_tool]\<rparr>)" by simp
  have s: "is_str_dict [(''text'', PStr ''hi'')]" by (simp add: is_str_dict_def)
  from tool_invocation[OF m, of _ _ _ _ _ "[(''text'', PStr ''hi'')]" "request_with_full None"] m s
  show ?thesis
    by (simp add: echo_tool_def)
qed


section \<open>Claims about startup and the route table\<close>

text \<open>
  C1. Mode resolution: if \<^verbatim>\<open>tools_only\<close> is set, or none of \<^verbatim>\<open>system_prompt\<close>,
  \<^verbatim>\<open>agent\<close> and \<^verbatim>\<open>task\<close> of the configuration is truthy (in particular when none of
  them is set), then startup succeeds in tools-only mode whatever \<^verbatim>\<open>serve_tools\<close> was:
  \<^verbatim>\<open>serve_tools\<close> and \<^verbatim>\<open>tools_only\<close> are both true afterwards and the tool runtime is
  built. Served over REST, the route table is one route per tool and holds no agent
  route; no route is at \<^verbatim>\<open>/\<close> as long as no tool has the empty name. Served over MCP,
  the server is created with both flags true.
\<close>

theorem tools_only_mode:
  assumes "get_agent_with_inputs w (arg_input_path a) = Some (input_path, agent_name, config, inputs)"
      and "arg_tools_only a \<or> (\<not> truthy (system_prompt config) \<and> \<not> truthy (agent config)
             \<and> \<not> truthy (task config))"
  shows "\<exists>s rt. serve w a = Inr s \<and> st_serve_tools s \<and> st_tools_only s
           \<and> st_runtime s = Some rt
           \<and> (arg_mcp a \<or> arg_mcp_sse a \<longrightarrow>
                (\<exists>n c i p. st_serving s = ServeSse (McpServer n c i p (Some rt) True True)
                         \<or> st_serving s = ServeStdio (McpServer n c i p (Some rt) True True)))
           \<and> (\<not> arg_mcp a \<and> \<not> arg_mcp_sse a \<longrightarrow>
                (\<exists>app. st_serving s = ServeRest app
                   \<and> app = map tool_route (tools rt)
                   \<and> (\<forall>r\<in>set app. \<not> is_agent_route r)
                   \<and> ((\<forall>t\<in>set (tools rt). tool_name t \<noteq> []) \<longrightarrow> (\<forall>r\<in>set app. path r \<noteq> ''/''))))"
  using assms resolve_mode_tools_only[OF assms(2), of "arg_serve_tools a"]
  by (auto simp: serve_def Let_def get_rest_api_app_routes tool_route_not_agent)
     (auto simp: tool_route_def)

theorem tools_only_mode_witness:
  "get_agent_with_inputs (example_world (example_config None)) (arg_input_path (example_args False False))
     = Some (''agent.yml'', ''demo'', example_config None, [(''name'', PStr ''world'')])
   \<and> system_prompt (example_config None) = None \<and> agent (example_config None) = None
   \<and> task (example_config None) = None
   \<and> serve (example_world (example_config None)) (example_args False False)
       = Inr \<lparr>st_serve_tools = True, st_tools_only = True,
              st_runtime = Some \<lparr>tools = [echo_tool]\<rparr>,
              st_trace = [EvRuntimeBuild, EvGetRestApiApp, EvServeHttpApp ''http''],
              st_serving = ServeRest [tool_route echo_tool]\<rparr>"
proof -
  have c: "arg_tools_only (example_args False False)
           \<or> (\<not> truthy (system_prompt (example_config None)) \<and> \<not> truthy (agent (example_config None))
              \<and> \<not> truthy (task (example_config None)))"
    by (simp add: example_config_def truthy_def)
  have e: "serve (example_world (example_config None)) (example_args False False)
       = Inr \<lparr>st_serve_tools = True, st_tools_only = True,
              st_runtime = Some \<lparr>tools = [echo_tool]\<rparr>,
              st_trace = [EvRuntimeBuild, EvGetRestApiApp, EvServeHttpApp ''http''],
              st_serving = ServeRest [tool_route echo_tool]\<rparr>"
    by (simp add: serve_def example_world_def example_args_def example_config_def
        resolve_mode_def truthy_def get_rest_api_app_routes)
  from tools_only_mode[OF example_loaded c] e show ?thesis
    by (simp add: example_loaded) (simp add: example_config_def)
qed

text \<open>
  C5. Route table in combined mode: with \<^verbatim>\<open>serve_tools\<close> true, \<^verbatim>\<open>tools_only\<close> false
  and a configuration that has a system prompt (a non-empty one, as the code tests it),
  the REST route table is exactly the agent route at \<^verbatim>\<open>/\<close>, with the configuration's
  description as summary, followed by one route per tool of the runtime at
  \<^verbatim>\<open>/<name>\<close>, with the tool's documentation string as summary, and nothing else.
\<close>

theorem combined_mode_routes:
  assumes "get_agent_with_inputs w (arg_input_path a) = Some (input_path, agent_name, config, inputs)"
      and "arg_serve_tools a" and "\<not> arg_tools_only a" and "truthy (system_prompt config)"
      and "\<not> arg_mcp a" and "\<not> arg_mcp_sse a"
  shows "\<exists>s rt app. serve w a = Inr s
           \<and> st_serve_tools s \<and> \<not> st_tools_only s
           \<and> st_runtime s = Some rt
           \<and> rt = runtime_build w (if path_is_dir w input_path then input_path
                                     else path_parent w input_path) agent_name config (arg_debug a)
           \<and> st_serving s = ServeRest app
           \<and> app = \<lparr>path = ''/'',
                     endpoint = AgentCall (create_agent_call_endpoint (runner_run w)
                        \<lparr>rp_input_path = input_path, rp_generator = arg_generator a,
                         rp_conversation_strategy = arg_conversation_strategy a,
                         rp_max_steps = arg_max_steps a, rp_max_cost = arg_max_cost a,
                         rp_timeout = arg_timeout a, rp_quiet = arg_quiet a\<rparr> inputs),
                     methods = [''POST''], response_model = ''dict'',
                     summary = Some (description config)\<rparr>
                   # map (\<lambda>tool. \<lparr>path = ''/'' @ tool_name tool,
                                   endpoint = ToolCall (create_tool_call_endpoint tool),
                                   methods = [''POST''], response_model = ''dict'',
                                   summary = tool_doc tool\<rparr>) (tools rt)
           \<and> length (filter is_agent_route app) = 1
           \<and> length app = 1 + length (tools rt)"
proof -
  have m: "resolve_mode (arg_serve_tools a) (arg_tools_only a) config = (True, False)"
    using assms(2-4) by (simp add: resolve_mode_def)
  have f: "filter is_agent_route (map tool_route ts) = []" for ts
    by (induction ts) (simp_all add: tool_route_not_agent)
  have t: "map tool_route ts = map (\<lambda>tool. \<lparr>path = ''/'' @ tool_name tool,
                                   endpoint = ToolCall (create_tool_call_endpoint tool),
                                   methods = [''POST''], response_model = ''dict'',
                                   summary = tool_doc tool\<rparr>) ts" for ts
    by (simp add: tool_route_def)
  define rt where "rt = runtime_build w (if path_is_dir w input_path then input_path
                          else path_parent w input_path) agent_name config (arg_debug a)"
  define agent_route where "agent_route =
     \<lparr>path = ''/'',
      endpoint = AgentCall (create_agent_call_endpoint (runner_run w)
         \<lparr>rp_input_path = input_path, rp_generator = arg_generator a,
          rp_conversation_strategy = arg_conversation_strategy a,
          rp_max_steps = arg_max_steps a, rp_max_cost = arg_max_cost a,
          rp_timeout = arg_timeout a, rp_quiet = arg_quiet a\<rparr> inputs),
      methods = [''POST''], response_model = ''dict'',
      summary = Some (description config)\<rparr>"
  have s: "serve w a = Inr \<lparr>st_serve_tools = True, st_tools_only = False, st_runtime = Some rt,
              st_trace = [EvRuntimeBuild, EvGetRestApiApp, EvServeHttpApp ''http''],
              st_serving = ServeRest (agent_route # map tool_route (tools rt))\<rparr>"
    using assms(1,5,6) m
    by (simp add: serve_def Let_def get_rest_api_app_routes rt_def agent_route_def)
  have a: "is_agent_route agent_route"
    by (simp add: is_agent_route_def agent_route_def)
  have "length (filter is_agent_route (agent_route # map tool_route (tools rt))) = 1"
    using a by (simp add: f)
  then show ?thesis
    unfolding s t[symmetric] rt_def[symmetric] agent_route_def[symmetric]
    by simp
qed

theorem combined_mode_routes_witness:
  "get_agent_with_inputs (example_world (example_config (Some ''You are helpful.'')))
       (arg_input_path (example_args True False))
     = Some (''agent.yml'', ''demo'', example_config (Some ''You are helpful.''),
             [(''name'', PStr ''world'')])
   \<and> arg_serve_tools (example_args True False) \<and> \<not> arg_tools_only (example_args True False)
   \<and> truthy (system_prompt (example_config (Some ''You are helpful.'')))
   \<and> \<not> arg_mcp (example_args True False) \<and> \<not> arg_mcp_sse (example_args True False)
   \<and> serve (example_world (example_config (Some ''You are helpful.''))) (example_args True False)
       = Inr \<lparr>st_serve_tools = True, st_tools_only = False,
              st_runtime = Some \<lparr>tools = [echo_tool]\<rparr>,
              st_trace = [EvRuntimeBuild, EvGetRestApiApp, EvServeHttpApp ''http''],
              st_serving = ServeRest
                [\<lparr>path = ''/'',
                  endpoint = AgentCall (create_agent_call_endpoint
                     (const_runner [(''output'', PStr ''done'')]) example_params
                     [(''name'', PStr ''world'')]),
                  methods = [''POST''], response_model = ''dict'',
                  summary = Some ''A demo agent.''\<rparr>,
                 \<lparr>path = ''/echo'',
                  endpoint = ToolCall (create_tool_call_endpoint echo_tool),
                  methods = [''POST''], response_model = ''dict'',
                  summary = Some ''Echo the arguments.''\<rparr>]\<rparr>"
proof -
  have h: "arg_serve_tools (example_args True False)" "\<not> arg_tools_only (example_args True False)"
    "truthy (system_prompt (example_config (Some ''You are helpful.'')))"
    "\<not> arg_mcp (example_args True False)" "\<not> arg_mcp_sse (example_args True False)"
    by (simp_all add: example_args_def example_config_def truthy_def)
  have e: "serve (example_world (example_config (Some ''You are helpful.''))) (example_args True False)
       = Inr \<lparr>st_serve_tools = True, st_tools_only = False,
              st_runtime = Some \<lparr>tools = [echo_tool]\<rparr>,
              st_trace = [EvRuntimeBuild, EvGetRestApiApp, EvServeHttpApp ''http''],
              st_serving = ServeRest
                [\<lparr>path = ''/'',
                  endpoint = AgentCall (create_agent_call_endpoint
                     (const_runner [(''output'', PStr ''done'')]) example_params
                     [(''name'', PStr ''world'')]),
                  methods = [''POST''], response_model = ''dict'',
                  summary = Some ''A demo agent.''\<rparr>,
                 \<lparr>path = ''/echo'',
                  endpoint = ToolCall (create_tool_call_endpoint echo_tool),
                  methods = [''POST''], response_model = ''dict'',
                  summary = Some ''Echo the arguments.''\<rparr>]\<rparr>"
    by (simp add: serve_def example_world_def example_args_def example_config_def
        example_params_def resolve_mode_def truthy_def get_rest_api_app_routes tool_route_def
        echo_tool_def)
  from combined_mode_routes[OF example_loaded h] h e show ?thesis
    by (simp add: example_loaded)
qed

text \<open>
  C8. Conditional construction of the tool runtime: startup builds the runtime exactly
  when the resolved mode serves tools; the build is then the first call of the trace, so
  it precedes the construction of the route table (\<^verbatim>\<open>_get_rest_api_app\<close>, or
  \<^verbatim>\<open>create_server\<close> under MCP), which receives the runtime. In agent-only mode the
  runtime is never built and stays \<^verbatim>\<open>None\<close>.
\<close>

theorem runtime_construction:
  assumes "get_agent_with_inputs w (arg_input_path a) = Some (input_path, agent_name, config, inputs)"
  shows "\<exists>s. serve w a = Inr s
           \<and> (st_serve_tools s \<longleftrightarrow>
                 arg_serve_tools a \<or> arg_tools_only a
                 \<or> (\<not> truthy (system_prompt config) \<and> \<not> truthy (agent config)
                      \<and> \<not> truthy (task config)))
           \<and> (st_runtime s \<noteq> None \<longleftrightarrow> st_serve_tools s)
           \<and> (EvRuntimeBuild \<in> set (st_trace s) \<longleftrightarrow> st_serve_tools s)
           \<and> (st_serve_tools s \<longrightarrow>
                 st_runtime s = Some (runtime_build w (if path_is_dir w input_path then input_path
                                        else path_parent w input_path) agent_name config (arg_debug a))
               \<and> (\<exists>rest. st_trace s = EvRuntimeBuild # rest \<and> EvRuntimeBuild \<notin> set rest
                     \<and> (EvGetRestApiApp \<in> set rest \<or> EvCreateServer \<in> set rest)))
           \<and> (\<not> st_serve_tools s \<longrightarrow>
                 st_runtime s = None \<and> EvRuntimeBuild \<notin> set (st_trace s)
               \<and> (EvGetRestApiApp \<in> set (st_trace s) \<or> EvCreateServer \<in> set (st_trace s)))
           \<and> (\<not> arg_mcp a \<and> \<not> arg_mcp_sse a \<longrightarrow>
                 st_serving s = ServeRest (get_rest_api_app (runner_run w)
                    \<lparr>rp_input_path = input_path, rp_generator = arg_generator a,
                     rp_conversation_strategy = arg_conversation_strategy a,
                     rp_max_steps = arg_max_steps a, rp_max_cost = arg_max_cost a,
                     rp_timeout = arg_timeout a, rp_quiet = arg_quiet a\<rparr>
                    inputs config (st_runtime s) (st_serve_tools s) (st_tools_only s)))"
proof (cases "arg_tools_only a \<or> (\<not> truthy (system_prompt config) \<and> \<not> truthy (agent config)
                      \<and> \<not> truthy (task config))")
  case True
  then have "resolve_mode (arg_serve_tools a) (arg_tools_only a) config = (True, True)"
    by (rule resolve_mode_tools_only)
  then show ?thesis
    using assms True by (auto simp: serve_def Let_def)
next
  case False
  then have "resolve_mode (arg_serve_tools a) (arg_tools_only a) config = (arg_serve_tools a, False)"
    by (intro resolve_mode_other) auto
  then show ?thesis
    using assms False by (auto simp: serve_def Let_def)
qed

theorem runtime_construction_witness:
  "get_agent_with_inputs (example_world (example_config (Some ''You are helpful.'')))
       (arg_input_path (example_args False False))
     = Some (''agent.yml'', ''demo'', example_config (Some ''You are helpful.''),
             [(''name'', PStr ''world'')])
   \<and> serve (example_world (example_config (Some ''You are helpful.''))) (example_args False False)
       = Inr \<lparr>st_serve_tools = False, st_tools_only = False,
              st_runtime = None,
              st_trace = [EvGetRestApiApp, EvServeHttpApp ''http''],
              st_serving = ServeRest
                [\<lparr>path = ''/'',
                  endpoint = AgentCall (create_agent_call_endpoint
                     (const_runner [(''output'', PStr ''done'')]) example_params
                     [(''name'', PStr ''world'')]),
                  methods = [''POST''], response_model = ''dict'',
                  summary = Some ''A demo agent.''\<rparr>]\<rparr>"
proof -
  have e: "serve (example_world (example_config (Some ''You are helpful.''))) (example_args False False)
       = Inr \<lparr>st_serve_tools = False, st_tools_only = False,
              st_runtime = None,
              st_trace = [EvGetRestApiApp, EvServeHttpApp ''http''],
              st_serving = ServeRest
                [\<lparr>path = ''/'',
                  endpoint = AgentCall (create_agent_call_endpoint
                     (const_runner [(''output'', PStr ''done'')]) example_params
                     [(''name'', PStr ''world'')]),
                  methods = [''POST''], response_model = ''dict'',
                  summary = Some ''A demo agent.''\<rparr>]\<rparr>"
    by (simp add: serve_def example_world_def example_args_def example_config_def
        example_params_def resolve_mode_def truthy_def get_rest_api_app_routes)
  from runtime_construction[OF example_loaded] e show ?thesis
    by (simp add: example_loaded)
qed

end
